theory Spec2Isabelle
  imports Complex_Main "HOL-Library.Sublist"
begin

section \<open>Data model of the Mapbox service\<close>

text \<open>
  JavaScript numbers are modelled as exact reals: every statement below is about the
  arithmetic the code denotes, without IEEE-754 rounding, infinities or NaN. Properties
  that rounding, underflow or NaN decide, such as the exact zeros and the sign of the
  Haversine distance, are therefore not stated here. A coordinate
  is the pair \<open>[longitude, latitude]\<close>. A field that TypeScript declares but that a
  caller can leave out at run time (the guard of \<open>segmentRoute\<close> tests for it) is an
  \<open>option\<close>; an array read out of range, which yields \<open>undefined\<close> in JavaScript, is
  \<open>None\<close>.
\<close>

type_synonym coordinate = "real \<times> real"

record Geometry =
  coordinates :: "coordinate list option"

record DirectionsResult =
  distance :: real
  duration :: real
  geometry :: "Geometry option"

record RouteSegment =
  startIndex :: int
  endIndex :: int
  startCoordinate :: "coordinate option"
  endCoordinate :: "coordinate option"
  seg_distance :: real
  seg_duration :: real
  seg_coordinates :: "coordinate list"

text \<open>\<open>xs[i]\<close> of JavaScript: \<open>undefined\<close> outside \<open>0 .. length - 1\<close>.\<close>

definition array_get :: "'a list \<Rightarrow> int \<Rightarrow> 'a option" where
  "array_get xs i = (if 0 \<le> i \<and> i < int (length xs) then Some (xs ! nat i) else None)"

text \<open>\<open>xs.slice(b, e)\<close> for non-negative \<open>b\<close>, \<open>e\<close>.\<close>

definition slice :: "'a list \<Rightarrow> nat \<Rightarrow> nat \<Rightarrow> 'a list" where
  "slice xs b e = take (e - b) (drop b xs)"

section \<open>Haversine distance\<close>

text \<open>\<open>Math.atan2(y, x)\<close> on the reals.\<close>

definition atan2 :: "real \<Rightarrow> real \<Rightarrow> real" where
  "atan2 y x =
     (if 0 < x then arctan (y / x)
      else if x < 0 then (if 0 \<le> y then arctan (y / x) + pi else arctan (y / x) - pi)
      else if 0 < y then pi / 2
      else if y < 0 then - (pi / 2)
      else 0)"

text \<open>The local \<open>a\<close> of \<open>calculateDistance\<close>, the haversine of the central angle.\<close>

definition haversine_a :: "coordinate \<Rightarrow> coordinate \<Rightarrow> real" where
  "haversine_a coord1 coord2 =
     (let lon1 = fst coord1; lat1 = snd coord1;
          lon2 = fst coord2; lat2 = snd coord2;
          phi1 = lat1 * pi / 180;
          phi2 = lat2 * pi / 180;
          dphi = (lat2 - lat1) * pi / 180;
          dlambda = (lon2 - lon1) * pi / 180
      in sin (dphi / 2) * sin (dphi / 2) +
         cos phi1 * cos phi2 * sin (dlambda / 2) * sin (dlambda / 2))"

definition calculateDistance :: "coordinate \<Rightarrow> coordinate \<Rightarrow> real" where
  "calculateDistance coord1 coord2 =
     (let R = 6371000;
          a = haversine_a coord1 coord2;
          c = 2 * atan2 (sqrt a) (sqrt (1 - a))
      in R * c)"

section \<open>Route segmentation\<close>

text \<open>
  The \<open>for\<close> loop of \<open>segmentRoute\<close>: \<open>i\<close> runs from its start value to the last index,
  the other arguments are the loop's mutable variables. \<open>distanceTimeRatio\<close> divides the
  edge length; it is positive for a route with positive distance and duration, and the
  index structure of the result does not depend on the value of the quotient.
\<close>

function segmentLoop ::
  "coordinate list \<Rightarrow> real \<Rightarrow> real \<Rightarrow> nat \<Rightarrow> nat \<Rightarrow> real \<Rightarrow> real \<Rightarrow>
   RouteSegment list \<Rightarrow> RouteSegment list" where
  "segmentLoop coords distanceTimeRatio targetDurationSeconds i currentSegmentStart
     accumulatedDuration accumulatedDistance segments =
     (if i < length coords then
        (let segmentDistance = calculateDistance (coords ! (i - 1)) (coords ! i);
             estimatedDuration = segmentDistance / distanceTimeRatio;
             accumulatedDuration' = accumulatedDuration + estimatedDuration;
             accumulatedDistance' = accumulatedDistance + segmentDistance
         in if targetDurationSeconds \<le> accumulatedDuration'
               \<or> int i = int (length coords) - 1
            then
              segmentLoop coords distanceTimeRatio targetDurationSeconds (i + 1) i 0 0
                (segments @
                 [\<lparr>startIndex = int currentSegmentStart,
                   endIndex = int i,
                   startCoordinate = array_get coords (int currentSegmentStart),
                   endCoordinate = array_get coords (int i),
                   seg_distance = accumulatedDistance',
                   seg_duration = accumulatedDuration',
                   seg_coordinates = slice coords currentSegmentStart (i + 1)\<rparr>])
            else
              segmentLoop coords distanceTimeRatio targetDurationSeconds (i + 1)
                currentSegmentStart accumulatedDuration' accumulatedDistance' segments)
      else segments)"
  by pat_completeness auto
termination
  by (relation "measure (\<lambda>(coords, r, t, i, s, d, a, segs). length coords - i)") auto

declare segmentLoop.simps [simp del]

text \<open>
  \<open>segmentRoute(directionsData, targetDrivingHoursPerSegment = 5)\<close>. The guard returns the
  empty list for a missing argument, geometry or coordinate array; an empty array is
  truthy in JavaScript and passes the guard.
\<close>

definition segmentRoute :: "DirectionsResult option \<Rightarrow> real \<Rightarrow> RouteSegment list" where
  "segmentRoute directionsData targetDrivingHoursPerSegment =
     (case directionsData of
        None \<Rightarrow> []
      | Some d \<Rightarrow>
          (case geometry d of
             None \<Rightarrow> []
           | Some g \<Rightarrow>
               (case coordinates g of
                  None \<Rightarrow> []
                | Some coords \<Rightarrow>
                    (let totalDurationHours = duration d / 3600;
                         totalDistance = distance d
                     in if totalDurationHours \<le> targetDrivingHoursPerSegment then
                          [\<lparr>startIndex = 0,
                            endIndex = int (length coords) - 1,
                            startCoordinate = array_get coords 0,
                            endCoordinate = array_get coords (int (length coords) - 1),
                            seg_distance = totalDistance,
                            seg_duration = duration d,
                            seg_coordinates = coords\<rparr>]
                        else
                          segmentLoop coords (totalDistance / duration d)
                            (targetDrivingHoursPerSegment * 3600) 1 0 0 0 []))))"


text \<open>Abbreviations for the loop body, used in the proofs below.\<close>

definition closeSegment ::
  "coordinate list \<Rightarrow> real \<Rightarrow> nat \<Rightarrow> nat \<Rightarrow> real \<Rightarrow> real \<Rightarrow> RouteSegment" where
  "closeSegment coords ratio i start accDur accDist =
     \<lparr>startIndex = int start, endIndex = int i,
      startCoordinate = array_get coords (int start),
      endCoordinate = array_get coords (int i),
      seg_distance = accDist + calculateDistance (coords ! (i - 1)) (coords ! i),
      seg_duration = accDur + calculateDistance (coords ! (i - 1)) (coords ! i) / ratio,
      seg_coordinates = slice coords start (i + 1)\<rparr>"

definition closes :: "coordinate list \<Rightarrow> real \<Rightarrow> real \<Rightarrow> nat \<Rightarrow> real \<Rightarrow> bool" where
  "closes coords ratio target i accDur \<longleftrightarrow>
     target \<le> accDur + calculateDistance (coords ! (i - 1)) (coords ! i) / ratio
     \<or> int i = int (length coords) - 1"

text \<open>
  A list of segments is a chain from index \<open>s\<close> to index \<open>e\<close> when the first starts at
  \<open>s\<close>, each one ends strictly after it starts and where the next one starts, and the
  last ends at \<open>e\<close>.
\<close>

fun chain :: "int \<Rightarrow> RouteSegment list \<Rightarrow> int \<Rightarrow> bool" where
  "chain s [] e \<longleftrightarrow> s = e"
| "chain s (x # xs) e \<longleftrightarrow> startIndex x = s \<and> s < endIndex x \<and> chain (endIndex x) xs e"

section \<open>Waypoint selection\<close>

text \<open>
  \<open>handleSubmit\<close> turns the recommended places into points of interest, filters them, and
  hands their coordinates to \<open>getDirections\<close>, which keeps the first 23. A coordinate
  arrives from the recommender as a JSON array, so it is a list of numbers of any length,
  or absent. The \<open>id\<close> of a point of interest is built from the clock and is left out.
\<close>

record GeminiRecommendedPlace =
  name :: string
  description :: string
  reasonToStop :: string
  coordinate :: "real list option"
  category :: "string option"

record PlaceOfInterest =
  poi_name :: string
  poi_category :: string
  poi_description :: string
  poi_coordinate :: "real list"
  poi_distance :: real
  poi_importance :: real

text \<open>
  The \<open>map\<close> callback of \<open>handleSubmit\<close>. \<open>place.category || 'Route Stop'\<close> replaces an
  absent or empty category; \<open>place.coordinate || [0, 0]\<close> replaces an absent coordinate
  (an array, even an empty one, is truthy).
\<close>

definition toRoutePOI :: "GeminiRecommendedPlace \<Rightarrow> PlaceOfInterest" where
  "toRoutePOI place =
     \<lparr>poi_name = name place,
      poi_category =
        (case category place of
           None \<Rightarrow> ''Route Stop''
         | Some c \<Rightarrow> if c = [] then ''Route Stop'' else c),
      poi_description = description place @ [CHR 0x0A, CHR 0x0A] @ reasonToStop place,
      poi_coordinate = (case coordinate place of None \<Rightarrow> [0, 0] | Some c \<Rightarrow> c),
      poi_distance = 0,
      poi_importance = 3\<rparr>"

text \<open>The \<open>filter\<close> callback of \<open>handleSubmit\<close>.\<close>

definition validRoutePOI :: "PlaceOfInterest \<Rightarrow> bool" where
  "validRoutePOI poi \<longleftrightarrow>
     length (poi_coordinate poi) = 2 \<and>
     poi_coordinate poi ! 0 \<noteq> 0 \<and>
     poi_coordinate poi ! 1 \<noteq> 0"

definition routePOIs :: "GeminiRecommendedPlace list \<Rightarrow> PlaceOfInterest list" where
  "routePOIs recommendedPlaces = filter validRoutePOI (map toRoutePOI recommendedPlaces)"

text \<open>The \<open>waypoints\<close> argument that \<open>handleSubmit\<close> passes: \<open>undefined\<close> when nothing is left.\<close>

definition waypoints :: "GeminiRecommendedPlace list \<Rightarrow> real list list option" where
  "waypoints recommendedPlaces =
     (if 0 < length (routePOIs recommendedPlaces)
      then Some (map poi_coordinate (routePOIs recommendedPlaces))
      else None)"

text \<open>
  The stops that \<open>getDirections\<close> puts between origin and destination:
  \<open>waypoints.slice(0, 23)\<close>, or none.
\<close>

definition limitedWaypoints :: "real list list option \<Rightarrow> real list list" where
  "limitedWaypoints ws =
     (case ws of
        None \<Rightarrow> []
      | Some w \<Rightarrow> if 0 < length w then slice w 0 23 else [])"

definition selectWaypoints :: "GeminiRecommendedPlace list \<Rightarrow> real list list" where
  "selectWaypoints recommendedPlaces = limitedWaypoints (waypoints recommendedPlaces)"

section \<open>Example inputs\<close>

text \<open>
  A route along the equator from longitude 0 to longitude 180 and back: two edges of half
  the circumference each, 40 hours of driving.
\<close>

definition equator_route :: DirectionsResult where
  "equator_route =
     \<lparr>distance = 40030000, duration = 144000,
      geometry = Some \<lparr>coordinates = Some [(0, 0), (180, 0), (0, 0)]\<rparr>\<rparr>"

text \<open>The route of the specification's scenarios: three coordinates, 600 km, 6 hours.\<close>

definition california_route :: DirectionsResult where
  "california_route =
     \<lparr>distance = 600000, duration = 21600,
      geometry =
        Some \<lparr>coordinates = Some [(- 122.42, 37.77), (- 119.5, 36.5), (- 118.24, 34.05)]\<rparr>\<rparr>"

definition stop_place :: GeminiRecommendedPlace where
  "stop_place =
     \<lparr>name = ''Stop'', description = ''A place'', reasonToStop = ''A reason'',
      coordinate = Some [- 100, 40], category = None\<rparr>"

section \<open>The loop of segmentRoute\<close>

lemma segmentLoop_unfold:
  "segmentLoop cs r t i s ad ax segs =
     (if i < length cs then
        (if closes cs r t i ad
         then segmentLoop cs r t (Suc i) i 0 0 (segs @ [closeSegment cs r i s ad ax])
         else segmentLoop cs r t (Suc i) s
                (ad + calculateDistance (cs ! (i - 1)) (cs ! i) / r)
                (ax + calculateDistance (cs ! (i - 1)) (cs ! i)) segs)
      else segs)"
  by (subst segmentLoop.simps) (simp add: closes_def closeSegment_def Let_def)

lemma segmentLoop_append:
  "segmentLoop cs r t i s ad ax segs = segs @ segmentLoop cs r t i s ad ax []"
proof (induction "length cs - i" arbitrary: i s ad ax segs)
  case 0
  then show ?case by (simp add: segmentLoop_unfold)
next
  case (Suc n)
  then have lt: "i < length cs" and n: "n = length cs - Suc i" by simp_all
  show ?case
  proof (cases "closes cs r t i ad")
    case True
    have a: "segmentLoop cs r t i s ad ax segs =
          segmentLoop cs r t (Suc i) i 0 0 (segs @ [closeSegment cs r i s ad ax])"
      using lt True by (subst segmentLoop_unfold) simp
    have b: "segmentLoop cs r t i s ad ax [] =
          segmentLoop cs r t (Suc i) i 0 0 [closeSegment cs r i s ad ax]"
      using lt True by (subst segmentLoop_unfold) simp
    show ?thesis
      unfolding a b
      by (subst Suc.hyps(1)[OF n], subst (2) Suc.hyps(1)[OF n]) simp
  next
    case False
    have a: "segmentLoop cs r t i s ad ax segs =
          segmentLoop cs r t (Suc i) s (ad + calculateDistance (cs ! (i - 1)) (cs ! i) / r)
                (ax + calculateDistance (cs ! (i - 1)) (cs ! i)) segs" for segs
      using lt False by (subst segmentLoop_unfold) simp
    show ?thesis
      unfolding a by (rule Suc.hyps(1)[OF n])
  qed
qed

lemma segmentLoop_Nil:
  "segmentLoop cs r t i s ad ax [] =
     (if i < length cs then
        (if closes cs r t i ad
         then closeSegment cs r i s ad ax # segmentLoop cs r t (Suc i) i 0 0 []
         else segmentLoop cs r t (Suc i) s
                (ad + calculateDistance (cs ! (i - 1)) (cs ! i) / r)
                (ax + calculateDistance (cs ! (i - 1)) (cs ! i)) [])
      else [])"
  by (subst segmentLoop_unfold, subst segmentLoop_append) simp

lemma closes_last: "Suc i = length cs \<Longrightarrow> closes cs r t i ad"
  by (auto simp: closes_def)

lemma segmentLoop_chain:
  "s < i \<Longrightarrow> i < length cs \<Longrightarrow>
   chain (int s) (segmentLoop cs r t i s ad ax []) (int (length cs) - 1)"
proof (induction "length cs - i" arbitrary: i s ad ax)
  case 0
  then show ?case by simp
next
  case (Suc n)
  have n: "Suc i < length cs \<Longrightarrow> n = length cs - Suc i" using Suc.hyps(2) by simp
  show ?case
  proof (cases "Suc i < length cs")
    case True
    show ?thesis
    proof (cases "closes cs r t i ad")
      case c: True
      have "chain (int i) (segmentLoop cs r t (Suc i) i 0 0 []) (int (length cs) - 1)"
        using Suc.hyps(1)[OF n[OF True] _ True, of i 0 0] by simp
      then show ?thesis
        using Suc.prems c by (subst segmentLoop_Nil) (simp add: closeSegment_def)
    next
      case c: False
      have "chain (int s) (segmentLoop cs r t (Suc i) s
                (ad + calculateDistance (cs ! (i - 1)) (cs ! i) / r)
                (ax + calculateDistance (cs ! (i - 1)) (cs ! i)) []) (int (length cs) - 1)"
        using Suc.hyps(1)[OF n[OF True] _ True, of s] Suc.prems by simp
      then show ?thesis
        using Suc.prems c by (subst segmentLoop_Nil) simp
    qed
  next
    case False
    with Suc.prems have e: "Suc i = length cs" by simp
    have "segmentLoop cs r t (Suc i) i 0 0 [] = []"
      using e by (subst segmentLoop_Nil) simp
    then show ?thesis
      using Suc.prems e closes_last[OF e, of r t ad]
      by (subst segmentLoop_Nil) (auto simp add: closeSegment_def)
  qed
qed

lemma chain_nonempty: "chain s xs e \<Longrightarrow> s < e \<Longrightarrow> xs \<noteq> []"
  by (cases xs) auto

lemma chain_hd: "chain s xs e \<Longrightarrow> xs \<noteq> [] \<Longrightarrow> startIndex (hd xs) = s"
  by (cases xs) auto

lemma chain_last: "chain s xs e \<Longrightarrow> xs \<noteq> [] \<Longrightarrow> endIndex (last xs) = e"
  by (induction xs arbitrary: s) (auto split: if_splits)

lemma chain_adjacent:
  "chain s xs e \<Longrightarrow> Suc k < length xs \<Longrightarrow> endIndex (xs ! k) = startIndex (xs ! Suc k)"
proof (induction xs arbitrary: s k)
  case Nil
  then show ?case by simp
next
  case (Cons x xs)
  show ?case
  proof (cases k)
    case 0
    with Cons.prems show ?thesis by (cases xs) auto
  next
    case (Suc j)
    with Cons.prems Cons.IH[of "endIndex x" j] show ?thesis by simp
  qed
qed





lemma segmentLoop_distance_sum:
  "i < length cs \<Longrightarrow>
   sum_list (map seg_distance (segmentLoop cs r t i s ad ax [])) =
     ax + (\<Sum>k = i..<length cs. calculateDistance (cs ! (k - 1)) (cs ! k))"
proof (induction "length cs - i" arbitrary: i s ad ax)
  case 0
  then show ?case by simp
next
  case (Suc n)
  have n: "n = length cs - Suc i" using Suc.hyps(2) by simp
  have split: "(\<Sum>k = i..<length cs. calculateDistance (cs ! (k - 1)) (cs ! k)) =
      calculateDistance (cs ! (i - 1)) (cs ! i) +
      (\<Sum>k = Suc i..<length cs. calculateDistance (cs ! (k - 1)) (cs ! k))"
    using Suc.prems by (simp add: sum.atLeast_Suc_lessThan)
  show ?case
  proof (cases "Suc i < length cs")
    case True
    show ?thesis
    proof (cases "closes cs r t i ad")
      case c: True
      show ?thesis
        using Suc.prems c Suc.hyps(1)[OF n True, of i 0 0] split
        by (subst segmentLoop_Nil) (simp add: closeSegment_def)
    next
      case c: False
      show ?thesis
        using Suc.prems c Suc.hyps(1)[OF n True, of s] split
        by (subst segmentLoop_Nil) simp
    qed
  next
    case False
    with Suc.prems have e: "Suc i = length cs" by simp
    have "segmentLoop cs r t (Suc i) i 0 0 [] = []"
      using e by (subst segmentLoop_Nil) simp
    moreover have "(\<Sum>k = Suc i..<length cs. calculateDistance (cs ! (k - 1)) (cs ! k)) = 0"
      using e by simp
    ultimately show ?thesis
      using Suc.prems closes_last[OF e, of r t ad] split
      by (subst segmentLoop_Nil) (simp add: closeSegment_def)
  qed
qed

lemma segmentRoute_long:
  assumes "geometry d = Some g" "coordinates g = Some coords"
    and "\<not> duration d / 3600 \<le> t"
  shows "segmentRoute (Some d) t =
           segmentLoop coords (distance d / duration d) (t * 3600) 1 0 0 0 []"
  using assms by (simp add: segmentRoute_def)

lemma segmentRoute_short:
  assumes "geometry d = Some g" "coordinates g = Some coords"
    and "duration d / 3600 \<le> t"
  shows "segmentRoute (Some d) t =
           [\<lparr>startIndex = 0, endIndex = int (length coords) - 1,
             startCoordinate = array_get coords 0,
             endCoordinate = array_get coords (int (length coords) - 1),
             seg_distance = distance d, seg_duration = duration d,
             seg_coordinates = coords\<rparr>]"
  using assms by (simp add: segmentRoute_def)

lemma segmentRoute_chain:
  assumes "geometry d = Some g" "coordinates g = Some coords" "2 \<le> length coords"
  shows "chain 0 (segmentRoute (Some d) t) (int (length coords) - 1)"
proof (cases "duration d / 3600 \<le> t")
  case True
  then show ?thesis using assms by (simp add: segmentRoute_short[OF assms(1,2)])
next
  case False
  have "chain (int 0) (segmentLoop coords (distance d / duration d) (t * 3600) 1 0 0 0 [])
          (int (length coords) - 1)"
    using assms(3) by (intro segmentLoop_chain) simp_all
  then show ?thesis by (simp add: segmentRoute_long[OF assms(1,2) False])
qed

lemma segmentRoute_malformed:
  "segmentRoute None t = []"
  "geometry d = None \<Longrightarrow> segmentRoute (Some d) t = []"
  "geometry d = Some g \<Longrightarrow> coordinates g = None \<Longrightarrow> segmentRoute (Some d) t = []"
  by (simp_all add: segmentRoute_def)

section \<open>Facts about the Haversine formula\<close>

lemma haversine_a_sym: "haversine_a a b = haversine_a b a"
proof -
  have 1: "(snd a - snd b) * pi / 180 / 2 = - ((snd b - snd a) * pi / 180 / 2)"
    by (simp add: field_simps)
  have 2: "(fst a - fst b) * pi / 180 / 2 = - ((fst b - fst a) * pi / 180 / 2)"
    by (simp add: field_simps)
  show ?thesis
    unfolding haversine_a_def Let_def 1 2 sin_minus by (simp add: mult.commute)
qed

section \<open>The example route, evaluated\<close>

lemma calculateDistance_half_equator: "calculateDistance (0, 0) (180, 0) = 6371000 * pi"
proof -
  have "haversine_a (0, 0) (180, 0) = 1"
    by (simp add: haversine_a_def Let_def)
  then show ?thesis
    by (simp add: calculateDistance_def Let_def atan2_def)
qed

lemma calculateDistance_half_equator_back: "calculateDistance (180, 0) (0, 0) = 6371000 * pi"
proof -
  have "haversine_a (180, 0) (0, 0) = 1"
    unfolding haversine_a_sym[of "(180, 0)" "(0, 0)"] by (simp add: haversine_a_def Let_def)
  then show ?thesis
    by (simp add: calculateDistance_def Let_def atan2_def)
qed

lemma half_equator_duration: "(18000 :: real) \<le> 6371000 * pi / (40030000 / 144000)"
proof -
  have "(18000 :: real) \<le> 6371000 * 2 / (40030000 / 144000)" by simp
  also have "\<dots> \<le> 6371000 * pi / (40030000 / 144000)"
    using pi_ge_two by (intro divide_right_mono mult_left_mono) simp_all
  finally show ?thesis .
qed

lemma segmentRoute_equator:
  "segmentRoute (Some equator_route) 5 =
     [\<lparr>startIndex = 0, endIndex = 1,
       startCoordinate = Some (0, 0), endCoordinate = Some (180, 0),
       seg_distance = 6371000 * pi,
       seg_duration = 6371000 * pi / (40030000 / 144000),
       seg_coordinates = [(0, 0), (180, 0)]\<rparr>,
      \<lparr>startIndex = 1, endIndex = 2,
       startCoordinate = Some (180, 0), endCoordinate = Some (0, 0),
       seg_distance = 6371000 * pi,
       seg_duration = 6371000 * pi / (40030000 / 144000),
       seg_coordinates = [(180, 0), (0, 0)]\<rparr>]"
proof -
  let ?cs = "[(0, 0), (180, 0), (0, 0)] :: coordinate list"
  let ?r = "40030000 / 144000 :: real"
  have c1: "closes ?cs ?r 18000 1 0"
    using half_equator_duration by (simp add: closes_def calculateDistance_half_equator)
  have c2: "closes ?cs ?r 18000 2 0"
    by (simp add: closes_def)
  have "segmentRoute (Some equator_route) 5 = segmentLoop ?cs ?r 18000 1 0 0 0 []"
    by (simp add: segmentRoute_def equator_route_def)
  also have "\<dots> = closeSegment ?cs ?r 1 0 0 0 # segmentLoop ?cs ?r 18000 2 1 0 0 []"
    using c1 by (subst segmentLoop_Nil) (simp add: numeral_2_eq_2)
  also have "segmentLoop ?cs ?r 18000 2 1 0 0 [] =
               closeSegment ?cs ?r 2 1 0 0 # segmentLoop ?cs ?r 18000 3 2 0 0 []"
    using c2 by (subst segmentLoop_Nil) (simp add: numeral_3_eq_3 numeral_2_eq_2)
  also have "segmentLoop ?cs ?r 18000 3 2 0 0 [] = []"
    by (subst segmentLoop_Nil) simp
  finally show ?thesis
    by (simp add: closeSegment_def array_get_def slice_def
        calculateDistance_half_equator calculateDistance_half_equator_back)
qed

section \<open>Facts about the waypoint selection\<close>

lemma slice_from_start: "slice xs 0 n = take n xs"
  by (simp add: slice_def)

lemma selectWaypoints_take:
  "selectWaypoints places = take 23 (map poi_coordinate (routePOIs places))"
  by (simp add: selectWaypoints_def limitedWaypoints_def waypoints_def slice_from_start)

lemma routePOIs_Cons:
  "routePOIs (p # ps) =
     (if validRoutePOI (toRoutePOI p) then toRoutePOI p # routePOIs ps else routePOIs ps)"
  by (simp add: routePOIs_def)

lemma validRoutePOI_toRoutePOI:
  "validRoutePOI (toRoutePOI p) \<longleftrightarrow>
     (case coordinate p of
        None \<Rightarrow> False
      | Some c \<Rightarrow> length c = 2 \<and> c ! 0 \<noteq> 0 \<and> c ! 1 \<noteq> 0)"
  by (simp add: validRoutePOI_def toRoutePOI_def split: option.split)

lemma poi_coordinate_toRoutePOI:
  "poi_coordinate (toRoutePOI p) = (case coordinate p of None \<Rightarrow> [0, 0] | Some c \<Rightarrow> c)"
  by (simp add: toRoutePOI_def)


section \<open>The claims\<close>

subsection \<open>C1: sum of the segment distances\<close>

text \<open>
  C1, as amended. For a route with at least two coordinates, positive distance and
  duration, and a positive target, the \<open>distance\<close> fields of the returned segments add up
  to the route's \<open>distance\<close> when the route fits in one segment
  (\<open>duration / 3600 \<le> targetHours\<close>), and otherwise to the sum of the Haversine lengths
  of the edges between consecutive coordinates. The loop never reads the route's
  \<open>distance\<close> for this sum, so in the second case the two totals are unrelated.
\<close>

theorem segmentRoute_distance_sum:
  assumes "geometry d = Some g" and "coordinates g = Some coords"
    and "2 \<le> length coords" and "0 < distance d" and "0 < duration d" and "0 < t"
  shows "sum_list (map seg_distance (segmentRoute (Some d) t)) =
           (if duration d / 3600 \<le> t then distance d
            else (\<Sum>k = 1..<length coords. calculateDistance (coords ! (k - 1)) (coords ! k)))"
proof (cases "duration d / 3600 \<le> t")
  case True
  then show ?thesis by (simp add: segmentRoute_short[OF assms(1,2)])
next
  case False
  have "1 < length coords" using assms(3) by simp
  from segmentLoop_distance_sum[OF this, of "distance d / duration d" "t * 3600" 0 0 0]
  show ?thesis using False by (simp add: segmentRoute_long[OF assms(1,2) False])
qed

text \<open>
  Witness for C1 on the equator route (40 hours, target 5 hours): the two segments carry
  the Haversine lengths of the two edges.
\<close>

theorem segmentRoute_distance_sum_witness:
  "sum_list (map seg_distance (segmentRoute (Some equator_route) 5)) =
     calculateDistance (0, 0) (180, 0) + calculateDistance (180, 0) (0, 0)"
proof -
  let ?cs = "[(0, 0), (180, 0), (0, 0)] :: coordinate list"
  have g: "geometry equator_route = Some \<lparr>coordinates = Some ?cs\<rparr>"
    by (simp add: equator_route_def)
  have c: "coordinates \<lparr>coordinates = Some ?cs\<rparr> = Some ?cs" by simp
  have l: "2 \<le> length ?cs" by simp
  have p: "0 < distance equator_route" "0 < duration equator_route" "(0 :: real) < 5"
    by (simp_all add: equator_route_def)
  have long: "\<not> duration equator_route / 3600 \<le> 5" by (simp add: equator_route_def)
  have s: "(\<Sum>k = 1..<length ?cs. calculateDistance (?cs ! (k - 1)) (?cs ! k)) =
        calculateDistance (0, 0) (180, 0) + calculateDistance (180, 0) (0, 0)"
    by (simp add: numeral_3_eq_3 sum.atLeast_Suc_lessThan)
  show ?thesis
    using segmentRoute_distance_sum[OF g c l p] long s by simp
qed

text \<open>
  Counterexample to C1 as stated. A route of two coordinates, \<open>(0, 0)\<close> and \<open>(180, 0)\<close>,
  with distance 30 000 000 m and duration 1 080 000 s is accepted and is longer than 5
  hours. The only segment has the Haversine length of the edge, \<open>6371000 * pi\<close>, which is
  more than 4 000 000 m below the route's distance.
\<close>

theorem segmentRoute_distance_sum_counterexample:
  "sum_list (map seg_distance
     (segmentRoute
        (Some \<lparr>distance = 30000000, duration = 1080000,
               geometry = Some \<lparr>coordinates = Some [(0, 0), (180, 0)]\<rparr>\<rparr>) 5)) =
     6371000 * pi \<and>
   6371000 * pi < (30000000 :: real) - 4000000"
proof -
  let ?cs = "[(0, 0), (180, 0)] :: coordinate list"
  let ?r = "30000000 / 1080000 :: real"
  have "segmentRoute
          (Some \<lparr>distance = 30000000, duration = 1080000,
                 geometry = Some \<lparr>coordinates = Some ?cs\<rparr>\<rparr>) 5 =
        segmentLoop ?cs ?r 18000 1 0 0 0 []"
    by (simp add: segmentRoute_def)
  also have "\<dots> = closeSegment ?cs ?r 1 0 0 0 # segmentLoop ?cs ?r 18000 2 1 0 0 []"
    using closes_last[of 1 ?cs ?r 18000 0]
    by (subst segmentLoop_Nil) (simp add: numeral_2_eq_2)
  also have "segmentLoop ?cs ?r 18000 2 1 0 0 [] = []"
    by (subst segmentLoop_Nil) simp
  finally have "sum_list (map seg_distance
     (segmentRoute
        (Some \<lparr>distance = 30000000, duration = 1080000,
               geometry = Some \<lparr>coordinates = Some ?cs\<rparr>\<rparr>) 5)) = 6371000 * pi"
    by (simp add: closeSegment_def calculateDistance_half_equator)
  moreover have "6371000 * pi < (30000000 :: real) - 4000000"
    using pi_less_4 by simp
  ultimately show ?thesis by simp
qed

subsection \<open>C2: contiguous and index-exhaustive segments\<close>

text \<open>
  C2. For a route with at least two coordinates, positive distance and duration, and a
  positive target, the returned list is not empty, its first segment starts at index 0,
  its last segment ends at the index of the last coordinate, and each segment ends at the
  index where the next one starts.
\<close>

theorem segmentRoute_contiguous:
  assumes "geometry d = Some g" and "coordinates g = Some coords"
    and "2 \<le> length coords" and "0 < distance d" and "0 < duration d" and "0 < t"
  shows "segmentRoute (Some d) t \<noteq> [] \<and>
         startIndex (hd (segmentRoute (Some d) t)) = 0 \<and>
         endIndex (last (segmentRoute (Some d) t)) = int (length coords) - 1 \<and>
         (\<forall>k. Suc k < length (segmentRoute (Some d) t) \<longrightarrow>
              endIndex (segmentRoute (Some d) t ! k) =
              startIndex (segmentRoute (Some d) t ! Suc k))"
proof -
  have c: "chain 0 (segmentRoute (Some d) t) (int (length coords) - 1)"
    by (rule segmentRoute_chain[OF assms(1-3)])
  have ne: "segmentRoute (Some d) t \<noteq> []"
    using chain_nonempty[OF c] assms(3) by simp
  show ?thesis
    using ne chain_hd[OF c ne] chain_last[OF c ne] chain_adjacent[OF c] by blast
qed

text \<open>
  Witness for C2 on the equator route, which is cut into two segments.
\<close>

theorem segmentRoute_contiguous_witness:
  "segmentRoute (Some equator_route) 5 \<noteq> [] \<and>
   startIndex (hd (segmentRoute (Some equator_route) 5)) = 0 \<and>
   endIndex (last (segmentRoute (Some equator_route) 5)) = 2 \<and>
   endIndex (segmentRoute (Some equator_route) 5 ! 0) =
     startIndex (segmentRoute (Some equator_route) 5 ! 1)"
proof -
  let ?cs = "[(0, 0), (180, 0), (0, 0)] :: coordinate list"
  have g: "geometry equator_route = Some \<lparr>coordinates = Some ?cs\<rparr>"
    by (simp add: equator_route_def)
  have c: "coordinates \<lparr>coordinates = Some ?cs\<rparr> = Some ?cs" by simp
  have l: "2 \<le> length ?cs" by simp
  have p: "0 < distance equator_route" "0 < duration equator_route" "(0 :: real) < 5"
    by (simp_all add: equator_route_def)
  have two: "Suc 0 < length (segmentRoute (Some equator_route) 5)"
    by (simp add: segmentRoute_equator)
  show ?thesis
    using segmentRoute_contiguous[OF g c l p] two by simp
qed

subsection \<open>C3: which places become waypoints\<close>

text \<open>
  C3, as amended. The filter of \<open>handleSubmit\<close> keeps, in order, the coordinates of
  exactly the places whose coordinate is present, has length 2 and has a non-zero
  longitude and a non-zero latitude; every other place is dropped. So a place is dropped
  when its coordinate is absent, is not of length 2, or has a zero component, of which the
  sentinel \<open>[0, 0]\<close> is one case. On the three places with coordinates \<open>[0, 0]\<close>,
  \<open>[-100, 40]\<close> and none, the waypoints are \<open>[[-100, 40]]\<close>.
\<close>

theorem routePOIs_coordinates:
  assumes "coordinate p1 = Some [0, 0]" and "coordinate p2 = Some [- 100, 40]"
    and "coordinate p3 = None"
  shows "map poi_coordinate (routePOIs places) =
           map (\<lambda>p. the (coordinate p))
             (filter (\<lambda>p. case coordinate p of
                            None \<Rightarrow> False
                          | Some c \<Rightarrow> length c = 2 \<and> c ! 0 \<noteq> 0 \<and> c ! 1 \<noteq> 0)
                places) \<and>
         selectWaypoints [p1, p2, p3] = [[- 100, 40]]"
proof
  show "map poi_coordinate (routePOIs places) =
           map (\<lambda>p. the (coordinate p))
             (filter (\<lambda>p. case coordinate p of
                            None \<Rightarrow> False
                          | Some c \<Rightarrow> length c = 2 \<and> c ! 0 \<noteq> 0 \<and> c ! 1 \<noteq> 0)
                places)"
  proof (induction places)
    case Nil
    show ?case by (simp add: routePOIs_def)
  next
    case (Cons p ps)
    show ?case
    proof (cases "coordinate p")
      case None
      with Cons show ?thesis
        by (simp add: routePOIs_Cons validRoutePOI_toRoutePOI)
    next
      case (Some c)
      with Cons show ?thesis
        by (simp add: routePOIs_Cons validRoutePOI_toRoutePOI poi_coordinate_toRoutePOI)
    qed
  qed
next
  show "selectWaypoints [p1, p2, p3] = [[- 100, 40]]"
    using assms
    by (simp add: selectWaypoints_take routePOIs_Cons validRoutePOI_toRoutePOI
        poi_coordinate_toRoutePOI routePOIs_def)
qed

text \<open>
  Witness for C3: a place on the prime meridian is dropped next to a kept one, and the
  three places of the scenario give the one waypoint.
\<close>

theorem routePOIs_coordinates_witness:
  "map poi_coordinate (routePOIs [stop_place, stop_place\<lparr>coordinate := Some [0, 40]\<rparr>]) =
     [[- 100, 40]] \<and>
   selectWaypoints
     [stop_place\<lparr>coordinate := Some [0, 0]\<rparr>, stop_place, stop_place\<lparr>coordinate := None\<rparr>] =
     [[- 100, 40]]"
proof -
  have h: "coordinate (stop_place\<lparr>coordinate := Some [0, 0]\<rparr>) = Some [0, 0]"
    "coordinate stop_place = Some [- 100, 40]"
    "coordinate (stop_place\<lparr>coordinate := None\<rparr>) = None"
    by (simp_all add: stop_place_def)
  show ?thesis
    using routePOIs_coordinates[OF h, of "[stop_place, stop_place\<lparr>coordinate := Some [0, 40]\<rparr>]"]
    by (simp add: stop_place_def)
qed

text \<open>
  Counterexample to C3 as stated: the coordinate \<open>[-100, 0]\<close> is present, has length 2 and
  is not \<open>[0, 0]\<close>, and the place is dropped all the same, since its latitude is 0.
\<close>

theorem selectWaypoints_zero_component_counterexample:
  "selectWaypoints
     [\<lparr>name = ''Stop'', description = ''A place'', reasonToStop = ''A reason'',
       coordinate = Some [- 100, 0], category = None\<rparr>] = [] \<and>
   length [- 100, 0 :: real] = 2 \<and> [- 100, 0 :: real] \<noteq> [0, 0]"
  by (simp add: selectWaypoints_take routePOIs_Cons validRoutePOI_toRoutePOI routePOIs_def)

subsection \<open>C4: index bounds of a segment\<close>



subsection \<open>C5: zero-length or malformed routes\<close>

text \<open>
  C5 at an empty coordinate array. The guard of \<open>segmentRoute\<close> lets the empty array
  through; with \<open>duration / 3600 \<le> targetHours\<close> the function returns one segment with
  \<open>endIndex = -1\<close> and undefined start and end coordinates, not the empty list. (For a
  missing argument, geometry or coordinate array the result is the empty list:
  \<open>segmentRoute_malformed\<close>.)
\<close>

theorem segmentRoute_empty_coordinates:
  "segmentRoute
     (Some \<lparr>distance = 0, duration = 0, geometry = Some \<lparr>coordinates = Some []\<rparr>\<rparr>) 5 =
   [\<lparr>startIndex = 0, endIndex = - 1, startCoordinate = None, endCoordinate = None,
     seg_distance = 0, seg_duration = 0, seg_coordinates = []\<rparr>]"
  by (simp add: segmentRoute_def array_get_def)

subsection \<open>C6: a route that fits in one segment\<close>

text \<open>
  C6. When \<open>duration / 3600 \<le> targetHours\<close>, the result is exactly one segment, from
  index 0 to the last index, with the whole coordinate sequence, its first and last
  coordinates, and the route's own distance and duration.
\<close>

theorem segmentRoute_single_segment:
  assumes "geometry d = Some g" and "coordinates g = Some coords"
    and "duration d / 3600 \<le> t"
  shows "\<exists>seg. segmentRoute (Some d) t = [seg] \<and>
           startIndex seg = 0 \<and> endIndex seg = int (length coords) - 1 \<and>
           seg_coordinates seg = coords \<and>
           startCoordinate seg = array_get coords 0 \<and>
           endCoordinate seg = array_get coords (int (length coords) - 1) \<and>
           seg_distance seg = distance d \<and> seg_duration seg = duration d"
  by (simp add: segmentRoute_short[OF assms])

text \<open>
  Witness for C6: the three-coordinate route of 6 hours with a target of 8 hours.
\<close>

theorem segmentRoute_single_segment_witness:
  "\<exists>seg. segmentRoute (Some california_route) 8 = [seg] \<and>
     startIndex seg = 0 \<and> endIndex seg = 2 \<and>
     seg_coordinates seg = [(- 122.42, 37.77), (- 119.5, 36.5), (- 118.24, 34.05)] \<and>
     startCoordinate seg = Some (- 122.42, 37.77) \<and>
     endCoordinate seg = Some (- 118.24, 34.05) \<and>
     seg_distance seg = 600000 \<and> seg_duration seg = 21600"
proof -
  let ?cs = "[(- 122.42, 37.77), (- 119.5, 36.5), (- 118.24, 34.05)] :: coordinate list"
  have g: "geometry california_route = Some \<lparr>coordinates = Some ?cs\<rparr>"
    by (simp add: california_route_def)
  have c: "coordinates \<lparr>coordinates = Some ?cs\<rparr> = Some ?cs" by simp
  have s: "duration california_route / 3600 \<le> 8" by (simp add: california_route_def)
  have a: "array_get ?cs 0 = Some (- 122.42, 37.77)"
    "array_get ?cs (int (length ?cs) - 1) = Some (- 118.24, 34.05)"
    by (simp_all add: array_get_def)
  have v: "distance california_route = 600000" "duration california_route = 21600"
    by (simp_all add: california_route_def)
  show ?thesis
    using segmentRoute_single_segment[OF g c s] unfolding a v by simp
qed

subsection \<open>C7: the cap on the number of waypoints\<close>



subsection \<open>C9: symmetry of the Haversine distance\<close>

text \<open>
  C9. The distance from \<open>a\<close> to \<open>b\<close> equals the distance from \<open>b\<close> to \<open>a\<close>, for all
  coordinates.
\<close>

theorem calculateDistance_symmetric: "calculateDistance a b = calculateDistance b a"
  by (simp add: calculateDistance_def haversine_a_sym[of a b])

subsection \<open>C10: every boundary but the last waits for the target\<close>



end
